theory Spec2Isabelle
  imports Main
begin

section \<open>JavaScript values\<close>

text \<open>
  Request bodies, stored elements and live-channel messages are JavaScript values that
  came out of \<^verbatim>\<open>JSON.parse\<close> or were built by object literals. An object is an
  association list in insertion order, the first occurrence of a key being the property.
  Numbers are modelled as mathematical integers: the only arithmetic of the program is
  \<^verbatim>\<open>version + 1\<close> on a counter that starts at 1. \<open>JUndefined\<close> is the value of a
  property that is read but absent, and of a property set from an absent one.
\<close>

datatype jsval =
    JUndefined
  | JNull
  | JBool bool
  | JNum int
  | JStr string
  | JArr "jsval list"
  | JObj "(string \<times> jsval) list"

type_synonym jsobj = "(string \<times> jsval) list"

text \<open>Truthiness, as used by \<^verbatim>\<open>||\<close>, \<^verbatim>\<open>!\<close> and \<^verbatim>\<open>if\<close>.\<close>

fun truthy :: "jsval \<Rightarrow> bool" where
  "truthy JUndefined = False"
| "truthy JNull = False"
| "truthy (JBool b) = b"
| "truthy (JNum n) = (n \<noteq> 0)"
| "truthy (JStr s) = (s \<noteq> [])"
| "truthy (JArr xs) = True"
| "truthy (JObj fs) = True"

text \<open>
  Arrays and objects are compared by reference by \<^verbatim>\<open>===\<close> and by \<^verbatim>\<open>Map\<close>. Two
  positions of a parsed JSON document never hold the same reference, so a value of a
  reference type found at one position is never identical to one found at another.
\<close>

fun is_ref :: "jsval \<Rightarrow> bool" where
  "is_ref (JArr xs) = True"
| "is_ref (JObj fs) = True"
| "is_ref v = False"

definition same_value :: "jsval \<Rightarrow> jsval \<Rightarrow> bool" where
  "same_value a b = (\<not> is_ref a \<and> a = b)"

definition obj_get :: "jsobj \<Rightarrow> string \<Rightarrow> jsval" where
  "obj_get obj k = (case map_of obj k of None \<Rightarrow> JUndefined | Some v \<Rightarrow> v)"

definition has_key :: "jsobj \<Rightarrow> string \<Rightarrow> bool" where
  "has_key obj k = (map_of obj k \<noteq> None)"

text \<open>Assignment to a property: an existing key keeps its place, a new one goes last.\<close>

fun obj_set :: "string \<Rightarrow> jsval \<Rightarrow> jsobj \<Rightarrow> jsobj" where
  "obj_set k v [] = [(k, v)]"
| "obj_set k v ((k', v') # rest) =
     (if k' = k then (k, v) # rest else (k', v') # obj_set k v rest)"

text \<open>
  Object spread \<^verbatim>\<open>{...target, ...src}\<close>: the properties of \<open>src\<close> are assigned in
  order. A later entry of the list with a key already seen is not a property of \<open>src\<close>
  and is passed over.
\<close>

function spread :: "jsobj \<Rightarrow> jsobj \<Rightarrow> jsobj" where
  "spread target [] = target"
| "spread target ((k, v) # rest) = spread (obj_set k v target) (filter (\<lambda>kv. fst kv \<noteq> k) rest)"
  by pat_completeness auto
termination
  by (relation "measure (\<lambda>(target, src). length src)") (auto simp: less_Suc_eq_le)

text \<open>
  A natural number written in decimal, as a template literal and an array index print it.
\<close>

definition digit :: "nat \<Rightarrow> char" where
  "digit d = ''0123456789'' ! d"

fun decimal :: "nat \<Rightarrow> string" where
  "decimal n = (if n div 10 = 0 then [digit n] else decimal (n div 10) @ [digit (n mod 10)])"

declare decimal.simps [simp del]

text \<open>
  The own enumerable properties that a spread copies out of a value: the fields of an
  object, the indexed entries of an array, the indexed characters of a string, and
  nothing for the other primitives (spreading \<^verbatim>\<open>null\<close> is allowed and copies nothing).
\<close>

fun own_props :: "jsval \<Rightarrow> jsobj" where
  "own_props (JObj fs) = fs"
| "own_props (JArr xs) = zip (map decimal [0..<length xs]) xs"
| "own_props (JStr s) = zip (map decimal [0..<length s]) (map (\<lambda>c. JStr [c]) s)"
| "own_props v = []"

text \<open>
  Reading a named property of a value that is neither \<^verbatim>\<open>null\<close> nor
  \<^verbatim>\<open>undefined\<close>. It is only used with the fixed names the handlers read
  (\<^verbatim>\<open>id\<close>, \<^verbatim>\<open>elements\<close>, \<^verbatim>\<open>timestamp\<close>, ...), which arrays, strings, numbers
  and booleans do not have.
\<close>

fun get_prop :: "jsval \<Rightarrow> string \<Rightarrow> jsval" where
  "get_prop (JObj fs) k = obj_get fs k"
| "get_prop v k = JUndefined"

section \<open>The request-schema validator\<close>

text \<open>
  The schemas of \<^verbatim>\<open>server.ts\<close> are built from the validator library's combinators.
  A combinator is modelled by what \<^verbatim>\<open>parse\<close> returns for it: \<open>None\<close> when the value is
  rejected, the parsed value otherwise. An object schema rejects anything that is not a
  plain object, checks its own keys in the order of the schema, copies a key to its
  output only when the input has it, and drops every key it does not name.
\<close>

datatype exn = ZodError | TypeError

type_synonym validator = "jsval \<Rightarrow> jsval option"

definition z_string :: validator where
  "z_string v = (case v of JStr s \<Rightarrow> Some v | _ \<Rightarrow> None)"

definition z_number :: validator where
  "z_number v = (case v of JNum n \<Rightarrow> Some v | _ \<Rightarrow> None)"

definition z_boolean :: validator where
  "z_boolean v = (case v of JBool b \<Rightarrow> Some v | _ \<Rightarrow> None)"

definition z_enum :: "string list \<Rightarrow> validator" where
  "z_enum names v = (case v of JStr s \<Rightarrow> if s \<in> set names then Some v else None | _ \<Rightarrow> None)"

definition z_array_string :: validator where
  "z_array_string v =
     (case v of JArr xs \<Rightarrow> if list_all (\<lambda>x. z_string x \<noteq> None) xs then Some v else None
      | _ \<Rightarrow> None)"

definition z_optional :: "validator \<Rightarrow> validator" where
  "z_optional chk v = (if v = JUndefined then Some JUndefined else chk v)"

fun z_fields :: "(string \<times> validator) list \<Rightarrow> jsobj \<Rightarrow> jsobj option" where
  "z_fields [] data = Some []"
| "z_fields ((k, chk) # shape) data =
     (case chk (obj_get data k) of
        None \<Rightarrow> None
      | Some v \<Rightarrow>
          (case z_fields shape data of
             None \<Rightarrow> None
           | Some out \<Rightarrow> Some (if has_key data k then (k, v) # out else out)))"

definition z_object :: "(string \<times> validator) list \<Rightarrow> validator" where
  "z_object shape v =
     (case v of JObj data \<Rightarrow> map_option JObj (z_fields shape data) | _ \<Rightarrow> None)"

definition parse :: "(string \<times> validator) list \<Rightarrow> jsval \<Rightarrow> exn + jsobj" where
  "parse shape v =
     (case v of
        JObj data \<Rightarrow> (case z_fields shape data of None \<Rightarrow> Inl ZodError | Some out \<Rightarrow> Inr out)
      | _ \<Rightarrow> Inl ZodError)"

text \<open>The fields that the two schemas share after \<^verbatim>\<open>id\<close> and \<^verbatim>\<open>type\<close>.\<close>

definition style_fields :: "(string \<times> validator) list" where
  "style_fields =
     [(''width'', z_optional z_number),
      (''height'', z_optional z_number),
      (''backgroundColor'', z_optional z_string),
      (''strokeColor'', z_optional z_string),
      (''strokeWidth'', z_optional z_number),
      (''roughness'', z_optional z_number),
      (''opacity'', z_optional z_number),
      (''text'', z_optional z_string),
      (''label'', z_optional (z_object [(''text'', z_string)])),
      (''fontSize'', z_optional z_number),
      (''fontFamily'', z_optional z_string),
      (''groupIds'', z_optional z_array_string),
      (''locked'', z_optional z_boolean)]"

text \<open>
  \<^verbatim>\<open>EXCALIDRAW_ELEMENT_TYPES\<close> is declared in \<^verbatim>\<open>types.ts\<close>; the schemas take the
  list of its values as the parameter \<open>tys\<close>.
\<close>

definition CreateElementSchema :: "string list \<Rightarrow> (string \<times> validator) list" where
  "CreateElementSchema tys =
     [(''id'', z_optional z_string),
      (''type'', z_enum tys),
      (''x'', z_number),
      (''y'', z_number)] @ style_fields"


section \<open>The element store and the connection registry\<close>

text \<open>
  \<^verbatim>\<open>SingleRoomStateManager\<close> keeps a \<^verbatim>\<open>Map\<close> from identifier to element. The map
  is a list of entries in insertion order with at most one entry per key; keys are
  compared as \<^verbatim>\<open>Map\<close> compares them.
\<close>

type_synonym store = "(jsval \<times> jsobj) list"

fun getElement :: "store \<Rightarrow> jsval \<Rightarrow> jsobj option" where
  "getElement [] k = None"
| "getElement ((k', e) # rest) k = (if same_value k' k then Some e else getElement rest k)"

fun setElement :: "jsval \<Rightarrow> jsobj \<Rightarrow> store \<Rightarrow> store" where
  "setElement k e [] = [(k, e)]"
| "setElement k e ((k', e') # rest) =
     (if same_value k' k then (k', e) # rest else (k', e') # setElement k e rest)"

fun deleteElement :: "jsval \<Rightarrow> store \<Rightarrow> store" where
  "deleteElement k [] = []"
| "deleteElement k ((k', e') # rest) =
     (if same_value k' k then rest else (k', e') # deleteElement k rest)"

text \<open>
  A connection is a socket object: its reference and its ready state (1 is OPEN).
  \<^verbatim>\<open>SingleRoomClientManager\<close> keeps a \<^verbatim>\<open>Set\<close> of them.
\<close>

record websocket =
  ws_ref :: nat
  readyState :: nat

text \<open>
  The state of the server process: the store, the registry, the log of everything handed
  to a socket's \<^verbatim>\<open>send\<close> (receiver and message, oldest first; the message stands for
  its JSON text), and how many identifiers and timestamps have been drawn so far.
\<close>

record server =
  elements :: store
  clients :: "websocket list"
  sent :: "(nat \<times> jsval) list"
  id_calls :: nat
  date_calls :: nat

text \<open>
  What the handlers take from outside \<^verbatim>\<open>server.ts\<close>: the identifier generator and
  the element types of \<^verbatim>\<open>types.ts\<close>, the clock, the text of a thrown error, and the
  runtime's conversion of a value to a string.
\<close>

record env =
  generateId :: "nat \<Rightarrow> string"
  toISOString :: "nat \<Rightarrow> string"
  elementTypes :: "string list"
  errorMessage :: "exn \<Rightarrow> string"
  toString :: "jsval \<Rightarrow> string"

record response =
  status :: nat
  body :: jsval

definition respond :: "nat \<Rightarrow> jsobj \<Rightarrow> response" where
  "respond code props = \<lparr>status = code, body = JObj props\<rparr>"

definition failure :: "string \<Rightarrow> jsobj" where
  "failure msg = [(''success'', JBool False), (''error'', JStr msg)]"

definition next_id :: "env \<Rightarrow> server \<Rightarrow> string \<times> server" where
  "next_id env s = (generateId env (id_calls s), s\<lparr>id_calls := Suc (id_calls s)\<rparr>)"

definition now :: "env \<Rightarrow> server \<Rightarrow> jsval \<times> server" where
  "now env s = (JStr (toISOString env (date_calls s)), s\<lparr>date_calls := Suc (date_calls s)\<rparr>)"

definition addClient :: "websocket \<Rightarrow> server \<Rightarrow> server" where
  "addClient ws s =
     (if ws_ref ws \<in> ws_ref ` set (clients s) then s else s\<lparr>clients := clients s @ [ws]\<rparr>)"


definition is_target :: "nat option \<Rightarrow> websocket \<Rightarrow> bool" where
  "is_target excludeClient client = (Some (ws_ref client) \<noteq> excludeClient \<and> readyState client = 1)"

definition broadcast :: "jsobj \<Rightarrow> nat option \<Rightarrow> server \<Rightarrow> server" where
  "broadcast message excludeClient s =
     s\<lparr>sent := sent s @
          map (\<lambda>client. (ws_ref client, JObj message)) (filter (is_target excludeClient) (clients s))\<rparr>"

section \<open>The request handlers\<close>

text \<open>
  \<^verbatim>\<open>POST /api/elements\<close>. The record is the object literal
  \<^verbatim>\<open>{ id, ...params, createdAt, updatedAt, version: 1 }\<close>.
\<close>

definition created_message :: "jsobj \<Rightarrow> jsobj" where
  "created_message element = [(''type'', JStr ''element_created''), (''element'', JObj element)]"

definition new_element :: "jsval \<Rightarrow> jsobj \<Rightarrow> jsval \<Rightarrow> jsval \<Rightarrow> jsobj" where
  "new_element eid params createdAt updatedAt =
     obj_set ''version'' (JNum 1)
       (obj_set ''updatedAt'' updatedAt
         (obj_set ''createdAt'' createdAt
           (spread [(''id'', eid)] params)))"

definition post_element :: "env \<Rightarrow> server \<Rightarrow> jsval \<Rightarrow> server \<times> response" where
  "post_element env s req_body =
     (case parse (CreateElementSchema (elementTypes env)) req_body of
        Inl e \<Rightarrow> (s, respond 400 (failure (errorMessage env e)))
      | Inr params \<Rightarrow>
          let (eid, s1) = (if truthy (obj_get params ''id'') then (obj_get params ''id'', s)
                          else (JStr (fst (next_id env s)), snd (next_id env s)));
              (createdAt, s2) = now env s1;
              (updatedAt, s3) = now env s2;
              element = new_element eid params createdAt updatedAt;
              s4 = s3\<lparr>elements := setElement eid element (elements s3)\<rparr>;
              s5 = broadcast (created_message element) None s4
          in (s5, respond 200 [(''success'', JBool True), (''element'', JObj element)]))"






text \<open>
  \<^verbatim>\<open>POST /api/elements/batch\<close>. The body of the \<^verbatim>\<open>forEach\<close> callback parses one
  entry and, when that succeeds, stores it at once; a parse error leaves the loop and is
  caught by the handler.
\<close>

definition batch_store :: "env \<Rightarrow> server \<Rightarrow> jsobj \<Rightarrow> server \<times> jsobj" where
  "batch_store env s params =
     (let (g, s1) = next_id env s;
          (createdAt, s2) = now env s1;
          (updatedAt, s3) = now env s2;
          element = new_element (JStr g) params createdAt updatedAt
      in (s3\<lparr>elements := setElement (JStr g) element (elements s3)\<rparr>, element))"

fun batch_loop :: "env \<Rightarrow> server \<Rightarrow> jsval list \<Rightarrow> jsobj list \<Rightarrow> exn \<times> server + server \<times> jsobj list" where
  "batch_loop env s [] createdElements = Inr (s, createdElements)"
| "batch_loop env s (elementData # rest) createdElements =
     (case parse (CreateElementSchema (elementTypes env)) elementData of
        Inl e \<Rightarrow> Inl (e, s)
      | Inr params \<Rightarrow>
          batch_loop env (fst (batch_store env s params)) rest
            (createdElements @ [snd (batch_store env s params)]))"

definition batch_message :: "jsobj list \<Rightarrow> jsobj" where
  "batch_message createdElements =
     [(''type'', JStr ''elements_batch_created''), (''elements'', JArr (map JObj createdElements))]"

definition post_batch :: "env \<Rightarrow> server \<Rightarrow> jsval \<Rightarrow> server \<times> response" where
  "post_batch env s req_body =
     (if req_body = JUndefined \<or> req_body = JNull
      then (s, respond 400 (failure (errorMessage env TypeError)))
      else
        (case get_prop req_body ''elements'' of
           JArr elementsToCreate \<Rightarrow>
             (case batch_loop env s elementsToCreate [] of
                Inl (e, s') \<Rightarrow> (s', respond 400 (failure (errorMessage env e)))
              | Inr (s', createdElements) \<Rightarrow>
                  (broadcast (batch_message createdElements) None s',
                   respond 200 [(''success'', JBool True),
                                (''elements'', JArr (map JObj createdElements)),
                                (''count'', JNum (int (length createdElements)))]))
         | _ \<Rightarrow> (s, respond 400 (failure ''Expected an array of elements''))))"

text \<open>
  \<^verbatim>\<open>POST /api/elements/sync\<close>. The first statement of the handler reads
  \<^verbatim>\<open>frontendElements.length\<close> for the log line, before the array check: that read
  throws when \<^verbatim>\<open>frontendElements\<close> is \<^verbatim>\<open>undefined\<close> or \<^verbatim>\<open>null\<close>, and the
  handler's \<^verbatim>\<open>catch\<close> answers 500. Inside the loop, reading \<^verbatim>\<open>element.id\<close> throws
  for a \<^verbatim>\<open>null\<close> entry; the inner \<^verbatim>\<open>catch\<close> logs it and the loop goes on.
  The record is the object literal
  \<^verbatim>\<open>{ ...element, id, syncedAt, source, syncTimestamp, version: 1 }\<close>.
\<close>

definition stamp :: "jsval \<Rightarrow> jsval \<Rightarrow> jsval \<Rightarrow> jsval \<Rightarrow> jsobj" where
  "stamp element elementId syncedAt timestamp =
     obj_set ''version'' (JNum 1)
       (obj_set ''syncTimestamp'' timestamp
         (obj_set ''source'' (JStr ''frontend_sync'')
           (obj_set ''syncedAt'' syncedAt
             (obj_set ''id'' elementId
               (spread [] (own_props element))))))"

definition sync_store :: "env \<Rightarrow> jsval \<Rightarrow> server \<Rightarrow> jsval \<Rightarrow> server \<times> jsobj" where
  "sync_store env timestamp s element =
     (let (elementId, s1) = (if truthy (get_prop element ''id'') then (get_prop element ''id'', s)
                             else (JStr (fst (next_id env s)), snd (next_id env s)));
          (syncedAt, s2) = now env s1;
          processedElement = stamp element elementId syncedAt timestamp
      in (s2\<lparr>elements := setElement elementId processedElement (elements s2)\<rparr>, processedElement))"

fun sync_loop :: "env \<Rightarrow> jsval \<Rightarrow> server \<Rightarrow> jsval list \<Rightarrow> jsobj list \<Rightarrow> server \<times> jsobj list" where
  "sync_loop env timestamp s [] processedElements = (s, processedElements)"
| "sync_loop env timestamp s (element # rest) processedElements =
     (if element = JNull \<or> element = JUndefined
      then sync_loop env timestamp s rest processedElements
      else sync_loop env timestamp (fst (sync_store env timestamp s element)) rest
             (processedElements @ [snd (sync_store env timestamp s element)]))"

definition sync_failure :: "string \<Rightarrow> jsobj" where
  "sync_failure msg =
     [(''success'', JBool False), (''error'', JStr msg),
      (''details'', JStr ''Internal server error during sync operation'')]"

definition post_sync :: "env \<Rightarrow> server \<Rightarrow> jsval \<Rightarrow> server \<times> response" where
  "post_sync env s req_body =
     (if req_body = JUndefined \<or> req_body = JNull
      then (s, respond 500 (sync_failure (errorMessage env TypeError)))
      else
        let frontendElements = get_prop req_body ''elements'';
            timestamp = get_prop req_body ''timestamp''
        in
          if frontendElements = JUndefined \<or> frontendElements = JNull
          then (s, respond 500 (sync_failure (errorMessage env TypeError)))
          else
            (case frontendElements of
               JArr es \<Rightarrow>
                 let beforeCount = length (elements s);
                     s1 = s\<lparr>elements := []\<rparr>;
                     (s2, processedElements) = sync_loop env timestamp s1 es [];
                     successCount = length processedElements;
                     (sentAt, s3) = now env s2;
                     s4 = broadcast [(''type'', JStr ''elements_synced''),
                                     (''count'', JNum (int successCount)),
                                     (''timestamp'', sentAt),
                                     (''source'', JStr ''manual_sync'')] None s3;
                     (syncedAt, s5) = now env s4
                 in (s5, respond 200
                       [(''success'', JBool True),
                        (''message'', JStr (''Successfully synced '' @ decimal successCount @ '' elements'')),
                        (''count'', JNum (int successCount)),
                        (''syncedAt'', syncedAt),
                        (''beforeCount'', JNum (int beforeCount)),
                        (''afterCount'', JNum (int (length (elements s5))))])
             | _ \<Rightarrow> (s, respond 400 (failure ''Expected elements to be an array''))))"


text \<open>The read-only endpoints: list, get by id, search.\<close>

definition element_values :: "server \<Rightarrow> jsobj list" where
  "element_values s = map snd (elements s)"

definition listing :: "jsobj list \<Rightarrow> jsobj" where
  "listing results =
     [(''success'', JBool True),
      (''elements'', JArr (map JObj results)),
      (''count'', JNum (int (length results)))]"

definition get_elements :: "server \<Rightarrow> response" where
  "get_elements s = respond 200 (listing (element_values s))"

definition get_element :: "server \<Rightarrow> string \<Rightarrow> response" where
  "get_element s eid =
     (if eid = [] then respond 400 (failure ''Element ID is required'')
      else
        (case getElement (elements s) (JStr eid) of
           None \<Rightarrow> respond 404 (failure (''Element with ID '' @ eid @ '' not found''))
         | Some element \<Rightarrow> respond 200 [(''success'', JBool True), (''element'', JObj element)]))"

text \<open>
  A value of \<^verbatim>\<open>req.query\<close> is a string, or an array or object built by the query-string
  parser. \<^verbatim>\<open>===\<close> between a stored field and a parsed array or object is false, since
  the two are different references.
\<close>

datatype qvalue = QString string | QNested

definition matches_filter :: "jsobj \<Rightarrow> string \<times> qvalue \<Rightarrow> bool" where
  "matches_filter element kv =
     (case snd kv of QString v \<Rightarrow> obj_get element (fst kv) = JStr v | QNested \<Rightarrow> False)"

definition search_results :: "server \<Rightarrow> (string \<times> qvalue) list \<Rightarrow> jsobj list" where
  "search_results s query =
     (let type = map_of query ''type'';
          filters = filter (\<lambda>kv. fst kv \<noteq> ''type'') query;
          results = element_values s;
          results1 = (case type of
                        Some (QString t) \<Rightarrow>
                          if t \<noteq> [] then filter (\<lambda>element. obj_get element ''type'' = JStr t) results
                          else results
                      | _ \<Rightarrow> results);
          results2 = (if filters \<noteq> []
                      then filter (\<lambda>element. list_all (matches_filter element) filters) results1
                      else results1)
      in results2)"

definition search_elements :: "server \<Rightarrow> (string \<times> qvalue) list \<Rightarrow> response" where
  "search_elements s query = respond 200 (listing (search_results s query))"

text \<open>
  The live channel on the server: a new connection is registered and is sent the snapshot
  and the status; close and error deregister it. The transport changes a socket's ready
  state on its own.
\<close>

definition on_connection :: "env \<Rightarrow> server \<Rightarrow> websocket \<Rightarrow> server" where
  "on_connection env s ws =
     (let s1 = addClient ws s;
          s2 = s1\<lparr>sent := sent s1 @
                 [(ws_ref ws, JObj [(''type'', JStr ''initial_elements''),
                                    (''elements'', JArr (map JObj (element_values s1)))])]\<rparr>;
          (sentAt, s3) = now env s2
      in s3\<lparr>sent := sent s3 @
             [(ws_ref ws, JObj [(''type'', JStr ''sync_status''),
                                (''elementCount'', JNum (int (length (elements s3)))),
                                (''timestamp'', sentAt)])]\<rparr>)"


definition transport :: "server \<Rightarrow> nat \<Rightarrow> nat \<Rightarrow> server" where
  "transport s r st =
     s\<lparr>clients := map (\<lambda>c. if ws_ref c = r then c\<lparr>readyState := st\<rparr> else c) (clients s)\<rparr>"

definition init_server :: server where
  "init_server = \<lparr>elements = [], clients = [], sent = [], id_calls = 0, date_calls = 0\<rparr>"


section \<open>The client-side reconciler\<close>

















section \<open>Notions the properties are stated with\<close>

text \<open>The registered connections whose socket is open, in the order of the registry.\<close>

definition open_connections :: "server \<Rightarrow> websocket list" where
  "open_connections s = filter (\<lambda>c. readyState c = 1) (clients s)"

text \<open>What was handed to sockets between two states: who received which message.\<close>

definition deliveries :: "server \<Rightarrow> server \<Rightarrow> (nat \<times> jsval) list" where
  "deliveries s s' = drop (length (sent s)) (sent s')"





text \<open>The fields a full sync writes into every record.\<close>

definition sync_fields :: "string list" where
  "sync_fields = [''id'', ''syncedAt'', ''source'', ''syncTimestamp'', ''version'']"

text \<open>An object without the properties of the given names.\<close>

definition without :: "string list \<Rightarrow> jsobj \<Rightarrow> jsobj" where
  "without ks obj = filter (\<lambda>kv. fst kv \<notin> set ks) obj"

text \<open>
  Apart from the fields a full sync writes, the record is the submitted entry: the same
  properties with the same values in the same order.
\<close>

definition kept :: "jsval \<Rightarrow> jsobj \<Rightarrow> bool" where
  "kept el e = (without sync_fields e = without sync_fields (spread [] (own_props el)))"

fun is_string :: "jsval \<Rightarrow> bool" where
  "is_string (JStr a) = True"
| "is_string v = False"

text \<open>
  A stored record that a full sync made of a payload entry: it carries the key it is filed
  under as its id, which is the entry's own id when that is truthy and a string otherwise,
  and it is stamped.
\<close>

definition synced :: "jsval \<Rightarrow> jsval \<Rightarrow> jsval \<Rightarrow> jsobj \<Rightarrow> bool" where
  "synced timestamp el k e =
     (obj_get e ''id'' = k \<and>
      (if truthy (get_prop el ''id'') then k = get_prop el ''id'' else is_string k) \<and>
      is_string (obj_get e ''syncedAt'') \<and>
      obj_get e ''source'' = JStr ''frontend_sync'' \<and>
      obj_get e ''syncTimestamp'' = timestamp \<and>
      obj_get e ''version'' = JNum 1 \<and>
      kept el e)"









text \<open>
  The type filter of the search: it applies when the \<^verbatim>\<open>type\<close> parameter is a
  string that is not empty.
\<close>

definition type_matches :: "(string \<times> qvalue) list \<Rightarrow> jsobj \<Rightarrow> bool" where
  "type_matches query element =
     (case map_of query ''type'' of
        Some (QString t) \<Rightarrow> t \<noteq> [] \<longrightarrow> obj_get element ''type'' = JStr t
      | _ \<Rightarrow> True)"

section \<open>Concrete requests and states\<close>

text \<open>
  Modelled from the spec: the values of \<^verbatim>\<open>EXCALIDRAW_ELEMENT_TYPES\<close>, which
  \<^verbatim>\<open>types.ts\<close> declares and the sources do not include; section 3 of the specification
  lists the drawable shapes. The examples below only create rectangles and ellipses, the
  two types of the specification's end-to-end scenarios.
\<close>

definition EXCALIDRAW_ELEMENT_TYPES :: "string list" where
  "EXCALIDRAW_ELEMENT_TYPES =
     [''rectangle'', ''ellipse'', ''diamond'', ''arrow'', ''line'', ''text'', ''freehand'',
      ''image'', ''frame'']"

text \<open>An environment to run the handlers in: numbered identifiers and timestamps.\<close>

definition example_env :: env where
  "example_env =
     \<lparr>generateId = (\<lambda>n. ''gen-'' @ decimal n),
      toISOString = (\<lambda>n. ''T'' @ decimal n),
      elementTypes = EXCALIDRAW_ELEMENT_TYPES,
      errorMessage = (\<lambda>e. case e of ZodError \<Rightarrow> ''validation failed'' | TypeError \<Rightarrow> ''type error''),
      toString = (\<lambda>v. ''[object Object]'')\<rparr>"

definition rectangle :: jsval where
  "rectangle = JObj [(''type'', JStr ''rectangle''), (''x'', JNum 10), (''y'', JNum 10),
                     (''width'', JNum 50), (''height'', JNum 30)]"

text \<open>One connection, open.\<close>

definition one_open :: server where
  "one_open = on_connection example_env init_server \<lparr>ws_ref = 1, readyState = 1\<rparr>"

text \<open>Three connections, of which the second has gone to the closed state (3) since.\<close>

definition three_clients :: server where
  "three_clients =
     transport
       (on_connection example_env
         (on_connection example_env
           (on_connection example_env init_server \<lparr>ws_ref = 1, readyState = 1\<rparr>)
           \<lparr>ws_ref = 2, readyState = 1\<rparr>)
         \<lparr>ws_ref = 3, readyState = 1\<rparr>)
       2 3"

text \<open>The store after one accepted creation.\<close>

definition one_rectangle :: server where
  "one_rectangle = fst (post_element example_env one_open rectangle)"

text \<open>A batch whose second entry lacks the mandatory \<^verbatim>\<open>y\<close>.\<close>

definition missing_y :: jsval where
  "missing_y = JObj [(''type'', JStr ''rectangle''), (''x'', JNum 0)]"

definition valid_then_invalid :: jsval where
  "valid_then_invalid = JObj [(''elements'', JArr [rectangle, missing_y])]"

text \<open>A batch of one entry that brings its own identifier.\<close>

definition ellipse_a :: jsval where
  "ellipse_a = JObj [(''id'', JStr ''a''), (''type'', JStr ''ellipse''), (''x'', JNum 0), (''y'', JNum 0)]"

definition batch_with_id :: jsval where
  "batch_with_id = JObj [(''elements'', JArr [ellipse_a])]"












text \<open>A store of a rectangle and an ellipse, and a query for the rectangle by type and id.\<close>

definition two_shapes :: server where
  "two_shapes = fst (post_element example_env one_rectangle ellipse_a)"

definition rectangle_by_id :: "(string \<times> qvalue) list" where
  "rectangle_by_id = [(''type'', QString ''rectangle''), (''id'', QString ''gen-0'')]"










section \<open>Properties\<close>

subsection \<open>Objects, the store, the schemas\<close>

lemma is_target_None: "is_target None = (\<lambda>c. readyState c = 1)"
  by (simp add: fun_eq_iff is_target_def)

lemma map_of_obj_set: "map_of (obj_set k v obj) k' = (if k' = k then Some v else map_of obj k')"
  by (induction obj) auto

lemma obj_get_obj_set: "obj_get (obj_set k v obj) k' = (if k' = k then v else obj_get obj k')"
  by (simp add: obj_get_def map_of_obj_set)

lemma has_key_obj_set: "has_key (obj_set k v obj) k' = (k' = k \<or> has_key obj k')"
  by (simp add: has_key_def map_of_obj_set)

lemma map_of_filter_other: "k' \<noteq> k \<Longrightarrow> map_of (filter (\<lambda>kv. fst kv \<noteq> k) xs) k' = map_of xs k'"
  by (induction xs) auto

lemma map_of_filter_same: "map_of (filter (\<lambda>kv. fst kv \<noteq> k) xs) k = None"
  by (induction xs) auto

lemma obj_get_spread:
  "obj_get (spread target src) k = (if has_key src k then obj_get src k else obj_get target k)"
proof (induction target src rule: spread.induct)
  case (1 target)
  then show ?case by (simp add: has_key_def)
next
  case (2 target k0 v rest)
  show ?case
  proof (cases "k = k0")
    case True
    with 2 show ?thesis
      by (simp add: has_key_def obj_get_def map_of_filter_same obj_get_obj_set [unfolded obj_get_def])
  next
    case False
    with 2 show ?thesis
      by (simp add: has_key_def obj_get_def map_of_filter_other obj_get_obj_set [unfolded obj_get_def])
  qed
qed

lemma has_key_spread: "has_key (spread target src) k = (has_key src k \<or> has_key target k)"
proof (induction target src rule: spread.induct)
  case (1 target)
  then show ?case by (simp add: has_key_def)
next
  case (2 target k0 v rest)
  show ?case
  proof (cases "k = k0")
    case True
    with 2 show ?thesis
      by (simp add: has_key_obj_set) (simp add: has_key_def)
  next
    case False
    with 2 show ?thesis
      by (simp add: has_key_obj_set) (simp add: has_key_def map_of_filter_other)
  qed
qed

lemma same_value_str [simp]: "same_value k (JStr a) = (k = JStr a)" "same_value (JStr a) k = (k = JStr a)"
  by (auto simp: same_value_def)


lemma getElement_deleteElement_other:
  "k \<noteq> JStr a \<Longrightarrow> getElement (deleteElement (JStr a) m) k = getElement m k"
  by (induction m) (auto simp: same_value_def)












lemma obj_get_absent: "\<not> has_key obj k \<Longrightarrow> obj_get obj k = JUndefined"
  by (simp add: has_key_def obj_get_def)









lemma has_key_single [simp]: "has_key [(k, v)] k' = (k' = k)"
  by (auto simp: has_key_def)

lemma obj_get_single [simp]: "obj_get [(k, v)] k' = (if k' = k then v else JUndefined)"
  by (simp add: obj_get_def)

lemma obj_get_Nil [simp]: "obj_get [] k = JUndefined"
  by (simp add: obj_get_def)

lemma has_key_Nil [simp]: "\<not> has_key [] k"
  by (simp add: has_key_def)

lemma obj_get_spread_Nil [simp]: "obj_get (spread [] obj) k = obj_get obj k"
  by (simp add: obj_get_spread obj_get_absent)

lemma has_key_spread_Nil [simp]: "has_key (spread [] obj) k = has_key obj k"
  by (simp add: has_key_spread)







subsection \<open>Every stored record counts its versions\<close>





















subsection \<open>Broadcast fan-out of a creation\<close>

text \<open>
  Claim C1, as the code has it. When the create endpoint accepts a request, the
  \<^verbatim>\<open>element_created\<close> event carrying the returned element is handed to every registered
  connection whose socket is open, once each and to no other: with N open connections
  there are N deliveries. The handler passes no connection to exclude, the caller being
  an HTTP client.
\<close>

theorem create_reaches_every_open_connection:
  assumes "post_element env s b = (s', r)" and "status r = 200"
  shows "\<exists>element. body r = JObj [(''success'', JBool True), (''element'', JObj element)] \<and>
           deliveries s s' =
             map (\<lambda>c. (ws_ref c, JObj (created_message element))) (open_connections s) \<and>
           length (deliveries s s') = length (open_connections s)"
  using assms
  by (auto simp: post_element_def Let_def broadcast_def now_def next_id_def deliveries_def
        open_connections_def is_target_None respond_def split: sum.splits prod.splits if_splits)

theorem create_reaches_every_open_connection_witness:
  "status (snd (post_element example_env three_clients rectangle)) = 200 \<and>
   map fst (deliveries three_clients (fst (post_element example_env three_clients rectangle))) = [1, 3]"
proof -
  have a: "post_element example_env three_clients rectangle =
             (fst (post_element example_env three_clients rectangle),
              snd (post_element example_env three_clients rectangle))"
    by simp
  have b: "status (snd (post_element example_env three_clients rectangle)) = 200"
    by code_simp
  have c: "map ws_ref (open_connections three_clients) = [1, 3]"
    by code_simp
  from create_reaches_every_open_connection [OF a b] c b show ?thesis
    by (auto simp: comp_def)
qed

text \<open>
  The claim as written expects N - 1 receivers, and none for N = 1. With one open
  connection an accepted creation is delivered to that connection.
\<close>

theorem create_fanout_counterexample:
  "length (open_connections one_open) = 1 \<and>
   status (snd (post_element example_env one_open rectangle)) = 200 \<and>
   length (deliveries one_open (fst (post_element example_env one_open rectangle))) \<noteq>
     length (open_connections one_open) - 1"
  by code_simp

subsection \<open>A batch with an invalid entry\<close>

text \<open>
  Claim C2 at a batch of a valid entry followed by an invalid one, sent to an empty store:
  the answer is 400 and nothing is broadcast, but the first entry has been stored by the
  time the second is parsed, and it stays.
\<close>

theorem batch_partial_commit:
  "status (snd (post_batch example_env one_open valid_then_invalid)) = 400 \<and>
   deliveries one_open (fst (post_batch example_env one_open valid_then_invalid)) = [] \<and>
   elements one_open = [] \<and>
   map fst (elements (fst (post_batch example_env one_open valid_then_invalid))) = [JStr ''gen-0'']"
  by code_simp

subsection \<open>A full sync without an array\<close>

text \<open>
  Claim C6 at bodies whose \<^verbatim>\<open>elements\<close> is absent, \<^verbatim>\<open>null\<close>, or a string:
  the first two are answered 500, because the log line reads the length before the array
  check is reached; the third is answered 400 by that check. The store is as before.
\<close>

theorem sync_without_elements_is_500:
  "status (snd (post_sync example_env one_rectangle (JObj []))) = 500 \<and>
   status (snd (post_sync example_env one_rectangle (JObj [(''elements'', JNull)]))) = 500 \<and>
   status (snd (post_sync example_env one_rectangle (JObj [(''elements'', JStr ''abc'')]))) = 400 \<and>
   elements (fst (post_sync example_env one_rectangle (JObj []))) = elements one_rectangle"
  by code_simp

subsection \<open>Identifiers in a batch\<close>

text \<open>
  Claim C9 at a batch entry that supplies the identifier \<^verbatim>\<open>a\<close>: the entry is filed
  under the generated key, but the spread of the parsed entry comes after \<^verbatim>\<open>id\<close> in the
  object literal, so the stored (and returned, and broadcast) record says its id is
  \<^verbatim>\<open>a\<close>, an identifier under which the store finds nothing.
\<close>

theorem batch_keeps_supplied_id:
  "status (snd (post_batch example_env one_open batch_with_id)) = 200 \<and>
   map fst (elements (fst (post_batch example_env one_open batch_with_id))) = [JStr ''gen-0''] \<and>
   map (\<lambda>e. obj_get e ''id'')
     (element_values (fst (post_batch example_env one_open batch_with_id))) = [JStr ''a''] \<and>
   status (get_element (fst (post_batch example_env one_open batch_with_id)) ''a'') = 404"
  by code_simp

subsection \<open>The version counter\<close>













subsection \<open>What an update leaves alone\<close>




subsection \<open>The loops of batch-create and full sync\<close>





























subsection \<open>Full sync replaces the store\<close>




subsection \<open>What creation strips and full sync keeps\<close>



subsection \<open>Search\<close>

text \<open>
  Claim C7, as the code has it. The search answers 200 with exactly the stored elements,
  in store order, that pass both filters, and with their number as count. The type filter
  asks for a type equal to the \<^verbatim>\<open>type\<close> parameter when that parameter is a string
  that is not empty, and for nothing otherwise. Every other parameter asks for the field
  of its name to be strictly equal to its value, which a string value is only to a string
  field and an array or object value is to nothing.
\<close>

theorem search_returns_the_matches:
  "search_results s query =
     filter (\<lambda>element. type_matches query element \<and>
               (\<forall>kv \<in> set query. fst kv \<noteq> ''type'' \<longrightarrow> matches_filter element kv))
            (element_values s) \<and>
   status (search_elements s query) = 200 \<and>
   body (search_elements s query) = JObj (listing (search_results s query)) \<and>
   get_prop (body (search_elements s query)) ''elements'' = JArr (map JObj (search_results s query)) \<and>
   get_prop (body (search_elements s query)) ''count'' = JNum (int (length (search_results s query)))"
proof -
  have a: "(filter (\<lambda>kv. fst kv \<noteq> ''type'') query \<noteq> []) \<Longrightarrow>
           list_all (matches_filter element) (filter (\<lambda>kv. fst kv \<noteq> ''type'') query) =
             (\<forall>kv \<in> set query. fst kv \<noteq> ''type'' \<longrightarrow> matches_filter element kv)" for element
    by (auto simp: list_all_iff)
  have b: "filter (\<lambda>kv. fst kv \<noteq> ''type'') query = [] \<Longrightarrow>
           (\<forall>kv \<in> set query. fst kv \<noteq> ''type'' \<longrightarrow> matches_filter element kv)" for element
    by (auto simp: filter_empty_conv)
  have "search_results s query =
     filter (\<lambda>element. type_matches query element \<and>
               (\<forall>kv \<in> set query. fst kv \<noteq> ''type'' \<longrightarrow> matches_filter element kv))
            (element_values s)"
  proof (cases "filter (\<lambda>kv. fst kv \<noteq> ''type'') query = []")
    case True
    with b show ?thesis
      by (auto simp: search_results_def Let_def type_matches_def
            split: option.splits qvalue.splits intro!: filter_cong)
  next
    case False
    with a show ?thesis
      by (auto simp: search_results_def Let_def type_matches_def
            split: option.splits qvalue.splits intro!: filter_cong)
  qed
  then show ?thesis
    by (simp add: search_elements_def respond_def listing_def obj_get_def)
qed

theorem search_returns_the_matches_witness:
  "search_results two_shapes rectangle_by_id = [hd (element_values two_shapes)] \<and>
   get_prop (body (search_elements two_shapes rectangle_by_id)) ''elements'' =
     JArr [JObj (hd (element_values two_shapes))] \<and>
   get_prop (body (search_elements two_shapes rectangle_by_id)) ''count'' = JNum 1 \<and>
   search_results two_shapes [(''x'', QString ''10'')] = []"
proof -
  note t = search_returns_the_matches [of two_shapes rectangle_by_id]
  have a: "search_results two_shapes rectangle_by_id = [hd (element_values two_shapes)]"
    by code_simp
  have b: "search_results two_shapes [(''x'', QString ''10'')] = []"
    by code_simp
  have "get_prop (body (search_elements two_shapes rectangle_by_id)) ''elements'' =
          JArr (map JObj (search_results two_shapes rectangle_by_id))"
    using t by (elim conjE)
  then have e: "get_prop (body (search_elements two_shapes rectangle_by_id)) ''elements'' =
          JArr [JObj (hd (element_values two_shapes))]"
    unfolding a by simp
  have "get_prop (body (search_elements two_shapes rectangle_by_id)) ''count'' =
          JNum (int (length (search_results two_shapes rectangle_by_id)))"
    using t by (elim conjE)
  then have c: "get_prop (body (search_elements two_shapes rectangle_by_id)) ''count'' = JNum 1"
    unfolding a by simp
  from a e c b show ?thesis by (intro conjI)
qed

text \<open>
  The claim as written filters by the type parameter whenever it is given. Given as the
  empty string it filters nothing: the rectangle is returned, whose type is not empty.
\<close>

theorem search_ignores_an_empty_type:
  "map_of [(''type'', QString '''')] ''type'' = Some (QString '''') \<and>
   search_results one_rectangle [(''type'', QString '''')] = element_values one_rectangle \<and>
   map (\<lambda>element. obj_get element ''type'') (element_values one_rectangle) = [JStr ''rectangle'']"
  by code_simp

subsection \<open>Binding sanitation on the client\<close>

















end
